theory Spec2Isabelle
  imports Main "HOL-Library.Word"
begin

unbundle bit_operations_syntax

section \<open>Data model\<close>

text \<open>
  Go's \<open>int64\<close> is a 64-bit word read in two's complement; \<open>[]byte\<close> and \<open>string\<close> are
  byte sequences, here lists of 8-bit characters. A \<open>tlog.Hash\<close> is a \<open>[32]byte\<close>.
\<close>

type_synonym int64 = "64 word"
type_synonym bytes = string
type_synonym Hash = string

definition HashSize :: nat where
  "HashSize = 32"

text \<open>\<open>tlog.Hash{}\<close>: the zero value of the array type, 32 zero bytes.\<close>

definition zero_Hash :: Hash where
  "zero_Hash = replicate 32 (CHR 0x00)"

text \<open>The newline byte of the text formats.\<close>

definition nl :: char where
  "nl = CHR 0x0A"

text \<open>store.go: \<open>Record\<close>.\<close>

record Record =
  ID :: int64
  Path :: string
  Version :: string
  Data :: bytes

text \<open>\<open>tlog.Tree\<close>: a tree head, the size \<open>N\<close> and the root \<open>Hash\<close>.\<close>

record Tree =
  tree_N :: int64
  tree_Hash :: Hash

section \<open>Errors\<close>

text \<open>
  Error values. The sentinels \<open>ErrNotFound\<close> (store.go), \<open>ErrInvalidNote\<close> and
  \<open>ErrVerifyFailed\<close> (signer) are constructors of their own; \<open>Errorf msg e\<close> is
  \<open>fmt.Errorf("msg: %w", e)\<close> and \<open>Errorf2 e1 e2\<close> is \<open>fmt.Errorf("%w: %w", e1, e2)\<close>.
  \<open>Opaque\<close> stands for an error made by a collaborator (store, upstream, note package),
  \<open>Mismatch\<close> for the length-mismatch error of \<open>tree.AddRecord\<close>, \<open>TlogReadHashes\<close> for
  tlog's complaint about a reader that returns the wrong number of hashes, and
  \<open>Panic\<close> for a run-time panic that unwinds through the callers.
\<close>

datatype error =
    ErrNotFound
  | ErrInvalidNote
  | ErrVerifyFailed
  | ErrMalformedTree
  | Opaque string
  | Errorf string error
  | Errorf2 error error
  | Mismatch nat nat
  | TlogReadHashes nat nat
  | Panic string

text \<open>\<open>errors.Is\<close>: the target is found anywhere along the chain of wrapped errors.\<close>

fun errors_Is :: "error \<Rightarrow> error \<Rightarrow> bool" where
  "errors_Is (Errorf m e) t = (Errorf m e = t \<or> errors_Is e t)"
| "errors_Is (Errorf2 e1 e2) t = (Errorf2 e1 e2 = t \<or> errors_Is e1 t \<or> errors_Is e2 t)"
| "errors_Is e t = (e = t)"

text \<open>
  A call site \<open>fmt.Errorf("msg: %w", err)\<close> on the error path of a callee. A panic is
  not an error value: it passes every such site unchanged.
\<close>

definition wrapf :: "string \<Rightarrow> error \<Rightarrow> error" where
  "wrapf msg e = (case e of Panic p \<Rightarrow> Panic p | _ \<Rightarrow> Errorf msg e)"

section \<open>The tlog package (golang.org/x/mod/sumdb/tlog)\<close>

text \<open>
  SHA-256 is a parameter \<open>sha\<close> of every function that hashes.
  \<open>RecordHash data = SHA-256(0x00 || data)\<close>, \<open>NodeHash l r = SHA-256(0x01 || l || r)\<close>.
\<close>

definition RecordHash :: "(bytes \<Rightarrow> Hash) \<Rightarrow> bytes \<Rightarrow> Hash" where
  "RecordHash sha data = sha (CHR 0x00 # data)"

definition NodeHash :: "(bytes \<Rightarrow> Hash) \<Rightarrow> Hash \<Rightarrow> Hash \<Rightarrow> Hash" where
  "NodeHash sha l r = sha (CHR 0x01 # l @ r)"

text \<open>
  Modelled from the spec: \<open>tlog.StoredHashIndex(level, n)\<close>, the storage index of the
  tiled transparent-log format; the function is not among the repository's files.
  First loop: \<open>for l := level; l > 0; l-- { n = 2*n + 1 }\<close>.
  Second loop: \<open>for ; n > 0; n >>= 1 { i += n }\<close>. Result: \<open>i + int64(level)\<close>.
\<close>

fun descend :: "nat \<Rightarrow> int64 \<Rightarrow> int64" where
  "descend 0 n = n"
| "descend (Suc l) n = descend l (2 * n + 1)"

function sum_halves :: "int64 \<Rightarrow> int64 \<Rightarrow> int64" where
  "sum_halves n i = (if 0 <s n then sum_halves (signed_drop_bit 1 n) (i + n) else i)"
  by pat_completeness auto
termination
proof (relation "measure (\<lambda>(n, i). nat (sint n))")
  show "wf (measure (\<lambda>(n :: int64, i :: int64). nat (sint n)))"
    by simp
next
  fix n i :: int64
  assume "0 <s n"
  then have "0 < sint n"
    by (simp add: word_sless_alt)
  then show "((signed_drop_bit 1 n, i + n), (n, i)) \<in> measure (\<lambda>(n, i). nat (sint n))"
    by (simp add: sint_signed_drop_bit_eq drop_bit_eq_div)
qed

declare sum_halves.simps [simp del]

definition StoredHashIndex :: "nat \<Rightarrow> int64 \<Rightarrow> int64" where
  "StoredHashIndex level n = sum_halves (descend level n) 0 + of_nat level"

text \<open>\<open>bits.TrailingZeros64\<close>: the number of trailing zero bits, 64 for 0.\<close>

primrec ctz :: "nat \<Rightarrow> 64 word \<Rightarrow> nat" where
  "ctz 0 w = 0"
| "ctz (Suc k) w = (if bit w 0 then 0 else Suc (ctz k (drop_bit 1 w)))"

definition TrailingZeros64 :: "64 word \<Rightarrow> nat" where
  "TrailingZeros64 w = ctz 64 w"

text \<open>
  Modelled from the spec: \<open>tlog.StoredHashes(n, data, r)\<close>, which is
  \<open>StoredHashesForRecordHash(n, RecordHash(data), r)\<close>; not among the repository's files.
  It starts with the record hash, reads the hashes of the \<open>m = TrailingZeros64(n + 1)\<close>
  left siblings (\<open>indexes[m-1-i] = StoredHashIndex(i, n>>i - 1)\<close>), fails when the reader
  fails or returns another number of hashes, and appends
  \<open>h = NodeHash(old[m-1-i], h)\<close> for \<open>i = 0 .. m-1\<close>.
\<close>

fun build_hashes :: "(bytes \<Rightarrow> Hash) \<Rightarrow> Hash list \<Rightarrow> Hash \<Rightarrow> Hash list" where
  "build_hashes sha [] h = []"
| "build_hashes sha (x # xs) h = NodeHash sha x h # build_hashes sha xs (NodeHash sha x h)"

definition sibling_indexes :: "int64 \<Rightarrow> nat \<Rightarrow> int64 list" where
  "sibling_indexes n m = map (\<lambda>i. StoredHashIndex i (signed_drop_bit i n - 1)) (rev [0..<m])"

definition StoredHashesForRecordHash ::
  "(bytes \<Rightarrow> Hash) \<Rightarrow> int64 \<Rightarrow> Hash \<Rightarrow> (int64 list \<Rightarrow> error + Hash list) \<Rightarrow> error + Hash list" where
  "StoredHashesForRecordHash sha n h r =
     (let m = TrailingZeros64 (n + 1);
          indexes = sibling_indexes n m
      in case r indexes of
           Inl err \<Rightarrow> Inl err
         | Inr old \<Rightarrow>
             if length old \<noteq> length indexes
             then Inl (TlogReadHashes (length indexes) (length old))
             else Inr (h # build_hashes sha (rev old) h))"

definition StoredHashes ::
  "(bytes \<Rightarrow> Hash) \<Rightarrow> int64 \<Rightarrow> bytes \<Rightarrow> (int64 list \<Rightarrow> error + Hash list) \<Rightarrow> error + Hash list" where
  "StoredHashes sha n data r = StoredHashesForRecordHash sha n (RecordHash sha data) r"







subsection \<open>Tree heads as text\<close>

text \<open>
  \<open>strconv.FormatInt(n, 10)\<close> and \<open>strconv.ParseInt(s, 10, 64)\<close>: decimal digits, a
  leading \<open>-\<close> for a negative number; the parser accepts one leading sign, wants at
  least one digit and nothing but digits, and fails outside the \<open>int64\<close> range.
\<close>

definition digit_char :: "nat \<Rightarrow> char" where
  "digit_char d = char_of (48 + d)"

fun FormatUint :: "nat \<Rightarrow> string" where
  "FormatUint n = (if n < 10 then [digit_char n] else FormatUint (n div 10) @ [digit_char (n mod 10)])"

declare FormatUint.simps [simp del]

definition FormatInt :: "int64 \<Rightarrow> string" where
  "FormatInt n = (if n <s 0 then CHR ''-'' # FormatUint (nat (- sint n)) else FormatUint (nat (sint n)))"

definition is_digit :: "char \<Rightarrow> bool" where
  "is_digit c = (48 \<le> (of_char c :: nat) \<and> (of_char c :: nat) \<le> 57)"

definition digits_val :: "string \<Rightarrow> nat" where
  "digits_val ds = foldl (\<lambda>acc c. 10 * acc + (of_char c - 48)) 0 ds"

definition ParseInt :: "string \<Rightarrow> int64 option" where
  "ParseInt s =
     (if s = [] then None
      else
        let neg = (hd s = CHR ''-'');
            ds = (if hd s = CHR ''+'' \<or> hd s = CHR ''-'' then tl s else s)
        in if ds \<noteq> [] \<and> list_all is_digit ds
           then
             let un = digits_val ds
             in if neg then (if un \<le> 2 ^ 63 then Some (- of_nat un) else None)
                else (if un < 2 ^ 63 then Some (of_nat un) else None)
           else None)"

text \<open>
  \<open>base64.StdEncoding\<close> (RFC 4648 with padding). The decoder skips carriage returns and
  newlines, wants whole quanta of four characters, accepts padding only in the last
  quantum and nothing after it, and does not insist on zero trailing bits.
\<close>

definition b64_alphabet :: string where
  "b64_alphabet = ''ABCDEFGHIJKLMNOPQRSTUVWXYZabcdefghijklmnopqrstuvwxyz0123456789+/''"


fun index_in :: "string \<Rightarrow> char \<Rightarrow> nat option" where
  "index_in [] c = None"
| "index_in (x # xs) c = (if x = c then Some 0 else map_option Suc (index_in xs c))"

definition b64_val :: "char \<Rightarrow> nat option" where
  "b64_val c = index_in b64_alphabet c"


definition quantum :: "nat \<Rightarrow> nat \<Rightarrow> nat \<Rightarrow> nat \<Rightarrow> nat" where
  "quantum s0 s1 s2 s3 = s0 * 2 ^ 18 + s1 * 2 ^ 12 + s2 * 2 ^ 6 + s3"

definition byte0 :: "nat \<Rightarrow> char" where
  "byte0 v = char_of (v div 2 ^ 16)"

definition byte1 :: "nat \<Rightarrow> char" where
  "byte1 v = char_of (v div 2 ^ 8)"

definition byte2 :: "nat \<Rightarrow> char" where
  "byte2 v = char_of v"

fun decode_quanta :: "string \<Rightarrow> bytes option" where
  "decode_quanta [] = Some []"
| "decode_quanta (c0 # c1 # c2 # c3 # rest) =
     (case (b64_val c0, b64_val c1) of
        (Some s0, Some s1) \<Rightarrow>
          if c2 = CHR ''=''
          then (if c3 = CHR ''='' \<and> rest = [] then Some [byte0 (quantum s0 s1 0 0)] else None)
          else
            (case b64_val c2 of
               None \<Rightarrow> None
             | Some s2 \<Rightarrow>
                 if c3 = CHR ''=''
                 then (if rest = []
                       then Some [byte0 (quantum s0 s1 s2 0), byte1 (quantum s0 s1 s2 0)]
                       else None)
                 else
                   (case b64_val c3 of
                      None \<Rightarrow> None
                    | Some s3 \<Rightarrow>
                        map_option
                          (\<lambda>bs. byte0 (quantum s0 s1 s2 s3) # byte1 (quantum s0 s1 s2 s3)
                                # byte2 (quantum s0 s1 s2 s3) # bs)
                          (decode_quanta rest)))
      | _ \<Rightarrow> None)"
| "decode_quanta _ = None"

definition DecodeString :: "string \<Rightarrow> bytes option" where
  "DecodeString s = decode_quanta (filter (\<lambda>c. c \<noteq> CHR 0x0D \<and> c \<noteq> CHR 0x0A) s)"

text \<open>
  Modelled from the spec: \<open>tlog.FormatTree\<close> and \<open>tlog.ParseTree\<close>, the three-line tree
  text \<open>"go.sum database tree\n<decimal N>\n<base64 root>\n"\<close>; not among the
  repository's files. The parser wants the first line, at least three newlines and at
  most \<open>1e6\<close> bytes, splits off the first three lines, and wants the second to be the
  canonical decimal of a non-negative \<open>int64\<close> and the third the base64 of exactly
  \<open>HashSize\<close> bytes. Text after the third line is ignored.
\<close>

definition treePrefix :: string where
  "treePrefix = ''go.sum database tree'' @ [nl]"


definition cut_line :: "string \<Rightarrow> string \<times> string" where
  "cut_line s = (takeWhile (\<lambda>c. c \<noteq> nl) s, drop 1 (dropWhile (\<lambda>c. c \<noteq> nl) s))"

definition ParseTree :: "bytes \<Rightarrow> error + Tree" where
  "ParseTree text =
     (if take (length treePrefix) text = treePrefix \<and> 3 \<le> count_list text nl
         \<and> length text \<le> 1000000
      then
        let line1 = fst (cut_line (snd (cut_line text)));
            line2 = fst (cut_line (snd (cut_line (snd (cut_line text)))))
        in case ParseInt line1 of
             None \<Rightarrow> Inl ErrMalformedTree
           | Some n \<Rightarrow>
               if 0 \<le>s n \<and> line1 = FormatInt n
               then
                 (case DecodeString line2 of
                    None \<Rightarrow> Inl ErrMalformedTree
                  | Some h \<Rightarrow>
                      if length h = HashSize then Inr \<lparr>tree_N = n, tree_Hash = h\<rparr>
                      else Inl ErrMalformedTree)
               else Inl ErrMalformedTree
      else Inl ErrMalformedTree)"

section \<open>The store interface (store.go)\<close>

text \<open>
  The \<open>Store\<close> interface over an explicit store state \<open>'s\<close>. The reading operations
  return a value or an error and leave the state alone; the writing operations return
  the state they leave behind together with their result, also when they fail.
  \<open>WithTx\<close> is the optional \<open>TxStore\<close> extension: \<open>None\<close> for a store that does not
  implement it.
\<close>

record 's Store =
  RecordID :: "'s \<Rightarrow> string \<Rightarrow> string \<Rightarrow> error + int64"
  Records :: "'s \<Rightarrow> int64 \<Rightarrow> int64 \<Rightarrow> error + Record list"
  AddRecord :: "'s \<Rightarrow> Record \<Rightarrow> (error + int64) \<times> 's"
  ReadHashes :: "'s \<Rightarrow> int64 list \<Rightarrow> error + Hash list"
  WriteHashes :: "'s \<Rightarrow> int64 list \<Rightarrow> Hash list \<Rightarrow> error option \<times> 's"
  TreeSize :: "'s \<Rightarrow> error + int64"
  SetTreeSize :: "'s \<Rightarrow> int64 \<Rightarrow> error option \<times> 's"
  WithTx :: "(('s \<Rightarrow> error option \<times> 's) \<Rightarrow> 's \<Rightarrow> error option \<times> 's) option"

section \<open>The tree engine (internal/tree/tree.go)\<close>

text \<open>
  \<open>storedHashIndexes(id, count)\<close>: \<open>make([]int64, count)\<close> panics on a negative count;
  otherwise \<open>indexes[i] = tlog.StoredHashIndex(i, id>>i)\<close> for \<open>i\<close> in \<open>range count\<close>.
\<close>

definition storedHashIndexes :: "int64 \<Rightarrow> int \<Rightarrow> error + int64 list" where
  "storedHashIndexes rid count =
     (if count < 0 then Inl (Panic ''makeslice: len out of range'')
      else Inr (map (\<lambda>i. StoredHashIndex i (signed_drop_bit i rid)) [0..<nat count]))"

text \<open>\<open>tree.AddRecord(ctx, store, id, data)\<close>.\<close>

definition tree_AddRecord ::
  "(bytes \<Rightarrow> Hash) \<Rightarrow> 's Store \<Rightarrow> 's \<Rightarrow> int64 \<Rightarrow> bytes \<Rightarrow> error option \<times> 's" where
  "tree_AddRecord sha store s rid data =
     (case StoredHashes sha rid data (ReadHashes store s) of
        Inl err \<Rightarrow> (Some (wrapf ''failed to compute hashes for record'' err), s)
      | Inr hashes \<Rightarrow>
          (case storedHashIndexes rid (int (length hashes)) of
             Inl p \<Rightarrow> (Some p, s)
           | Inr indexes \<Rightarrow>
               if length indexes \<noteq> length hashes
               then (Some (Mismatch (length indexes) (length hashes)), s)
               else if length indexes = 0 then (None, s)
               else
                 (case WriteHashes store s indexes hashes of
                    (Some err, s1) \<Rightarrow>
                      (Some (wrapf ''failed to write hashes for record'' err), s1)
                  | (None, s1) \<Rightarrow>
                      (case SetTreeSize store s1 (rid + 1) of
                         (Some err, s2) \<Rightarrow> (Some (wrapf ''failed to update tree size'' err), s2)
                       | (None, s2) \<Rightarrow> (None, s2)))))"


section \<open>The signer (internal/signer)\<close>

text \<open>
  The note package (\<open>golang.org/x/mod/sumdb/note\<close>) is a parameter: \<open>note_Sign text signer\<close>
  is \<open>note.Sign(&note.Note{Text: text}, signer)\<close> and \<open>note_Open msg verifier\<close> is
  \<open>note.Open(msg, note.VerifierList(verifier))\<close>, which returns the note's text or an
  error. Signers and verifiers are opaque values of the types \<open>'sg\<close> and \<open>'vf\<close>.
\<close>

record ('sg, 'vf) note_pkg =
  note_Sign :: "string \<Rightarrow> 'sg \<Rightarrow> error + bytes"
  note_Open :: "bytes \<Rightarrow> 'vf \<Rightarrow> error + string"


text \<open>\<open>VerifyTreeHead(verifier, signed)\<close>.\<close>

definition VerifyTreeHead :: "('sg, 'vf) note_pkg \<Rightarrow> 'vf \<Rightarrow> bytes \<Rightarrow> error + Tree" where
  "VerifyTreeHead np verifier signed_note =
     (case note_Open np signed_note verifier of
        Inl err \<Rightarrow> Inl (Errorf2 ErrVerifyFailed err)
      | Inr text \<Rightarrow>
          (case ParseTree text of
             Inl err \<Rightarrow> Inl (Errorf2 ErrInvalidNote err)
           | Inr tree \<Rightarrow> Inr tree))"

section \<open>The upstream proxy (internal/proxy)\<close>

text \<open>
  \<open>Proxy.GoMod\<close> and \<open>Proxy.Zip\<close> talk to the upstream mirror: each takes the state \<open>'u\<close>
  of the world upstream, the module path and version, and returns the \<open>h1:\<close> hash or an
  error together with the upstream state after the request.
\<close>

record 'u Proxy =
  GoMod :: "'u \<Rightarrow> string \<Rightarrow> string \<Rightarrow> (error + string) \<times> 'u"
  Zip :: "'u \<Rightarrow> string \<Rightarrow> string \<Rightarrow> (error + string) \<times> 'u"

section \<open>The coordinator (sumdb.go)\<close>


text \<open>\<open>SumDB.ReadRecords(ctx, id, n)\<close>.\<close>

definition ReadRecords :: "'s Store \<Rightarrow> 's \<Rightarrow> int64 \<Rightarrow> int64 \<Rightarrow> error + bytes list" where
  "ReadRecords store s rid n =
     (case Records store s rid n of
        Inl err \<Rightarrow> Inl (wrapf ''failed to get records'' err)
      | Inr recs \<Rightarrow> Inr (map Data recs))"

text \<open>
  The record data of \<open>fetchAndStoreRecord\<close>:
  \<open>fmt.Appendf(nil, "%s %s %s\n%s %s/go.mod %s\n", path, version, h1, path, version, h1mod)\<close>.
\<close>

definition record_data :: "string \<Rightarrow> string \<Rightarrow> string \<Rightarrow> string \<Rightarrow> bytes" where
  "record_data path version h1 h1mod =
     path @ '' '' @ version @ '' '' @ h1 @ [nl]
     @ path @ '' '' @ version @ ''/go.mod '' @ h1mod @ [nl]"

text \<open>
  \<open>SumDB.fetchAndStoreRecord(ctx, mod)\<close> on the store state \<open>s\<close> and the upstream state
  \<open>u\<close>; it returns both states as it leaves them.
\<close>

definition fetchAndStoreRecord ::
  "(bytes \<Rightarrow> Hash) \<Rightarrow> 's Store \<Rightarrow> 'u Proxy \<Rightarrow> 's \<times> 'u \<Rightarrow> string \<Rightarrow> string
   \<Rightarrow> (error + int64) \<times> 's \<times> 'u" where
  "fetchAndStoreRecord sha store px su path version =
     (case su of (s, u) \<Rightarrow>
      (case RecordID store s path version of
         Inr rid \<Rightarrow> (Inr rid, s, u)
       | Inl err \<Rightarrow>
           if errors_Is err ErrNotFound
           then
             (case GoMod px u path version of
                (Inl err, u1) \<Rightarrow> (Inl (wrapf ''failed getting h1 hash for go.mod'' err), s, u1)
              | (Inr h1mod, u1) \<Rightarrow>
                  (case Zip px u1 path version of
                     (Inl err, u2) \<Rightarrow>
                       (Inl (wrapf ''failed getting h1 hash for module zip'' err), s, u2)
                   | (Inr h1, u2) \<Rightarrow>
                       (let rec = \<lparr>ID = 0, Path = path, Version = version,
                                   Data = record_data path version h1 h1mod\<rparr>
                        in case AddRecord store s rec of
                             (Inl err, s1) \<Rightarrow> (Inl (wrapf ''failed to add new record'' err), s1, u2)
                           | (Inr rid, s1) \<Rightarrow>
                               (case tree_AddRecord sha store s1 rid (Data rec) of
                                  (Some err, s2) \<Rightarrow>
                                    (Inl (wrapf ''failed to update tree hashes'' err), s2, u2)
                                | (None, s2) \<Rightarrow> (Inr rid, s2, u2)))))
           else (Inl (wrapf ''failed to find record id'' err), s, u)))"

text \<open>
  \<open>SumDB.Lookup(ctx, mod)\<close> as one caller runs it: \<open>lookupGroup.Do(key, fn)\<close> calls \<open>fn\<close>
  and hands back its result.
\<close>

definition Lookup ::
  "(bytes \<Rightarrow> Hash) \<Rightarrow> 's Store \<Rightarrow> 'u Proxy \<Rightarrow> 's \<times> 'u \<Rightarrow> string \<Rightarrow> string
   \<Rightarrow> (error + int64) \<times> 's \<times> 'u" where
  "Lookup sha store px su path version =
     (case su of (s, u) \<Rightarrow>
      (case RecordID store s path version of
         Inr rid \<Rightarrow> (Inr rid, s, u)
       | Inl err \<Rightarrow>
           if errors_Is err ErrNotFound
           then fetchAndStoreRecord sha store px (s, u) path version
           else (Inl (wrapf ''failed to find record id'' err), s, u)))"

section \<open>Test doubles\<close>

text \<open>
  An in-memory store after \<open>mockStore\<close> of tree\_test.go (a hash table and a tree size),
  with a record table that assigns the next sequential id and refuses a second record
  of the same path and version. \<open>faults\<close> says which writing operations fail, as a mock
  would be told to, and whether the store implements \<open>TxStore\<close>; its \<open>WithTx\<close> runs the
  callback and keeps the old state when the callback fails, as \<open>dbStore.WithTx\<close> of
  examples/db does by rolling back.
\<close>

record mem =
  recs :: "Record list"
  hashes :: "(int64 \<times> Hash) list"
  treeSize :: int64

record faults =
  fail_add :: bool
  fail_write :: bool
  fail_size :: bool
  has_tx :: bool

definition memStore :: "faults \<Rightarrow> mem Store" where
  "memStore f =
     \<lparr>RecordID = (\<lambda>s path version.
        case find (\<lambda>r. Path r = path \<and> Version r = version) (recs s) of
          None \<Rightarrow> Inl ErrNotFound
        | Some r \<Rightarrow> Inr (ID r)),
      Records = (\<lambda>s rid n. Inr (filter (\<lambda>r. rid \<le>s ID r \<and> ID r <s rid + n) (recs s))),
      AddRecord = (\<lambda>s r.
        if fail_add f then (Inl (Opaque ''insert record''), s)
        else if find (\<lambda>x. Path x = Path r \<and> Version x = Version r) (recs s) = None
        then (Inr (of_nat (length (recs s))),
              s\<lparr>recs := recs s @ [r\<lparr>ID := of_nat (length (recs s))\<rparr>]\<rparr>)
        else (Inl (Opaque ''insert record: UNIQUE constraint failed''), s)),
      ReadHashes = (\<lambda>s indexes.
        Inr (map (\<lambda>i. case map_of (hashes s) i of None \<Rightarrow> zero_Hash | Some h \<Rightarrow> h) indexes)),
      WriteHashes = (\<lambda>s indexes hs.
        if fail_write f then (Some (Opaque ''insert hash''), s)
        else (None, s\<lparr>hashes := rev (zip indexes hs) @ hashes s\<rparr>)),
      TreeSize = (\<lambda>s. Inr (treeSize s)),
      SetTreeSize = (\<lambda>s n.
        if fail_size f then (Some (Opaque ''update tree size''), s)
        else (None, s\<lparr>treeSize := n\<rparr>)),
      WithTx = (if has_tx f
                then Some (\<lambda>fn s. case fn s of (Some err, s') \<Rightarrow> (Some err, s) | (None, s') \<Rightarrow> (None, s'))
                else None)\<rparr>"

definition no_faults :: faults where
  "no_faults = \<lparr>fail_add = False, fail_write = False, fail_size = False, has_tx = False\<rparr>"

definition mem0 :: mem where
  "mem0 = \<lparr>recs = [], hashes = [], treeSize = 0\<rparr>"

text \<open>
  The record that a lookup of \<open>example.com/new@v1.0.0\<close> makes from the answers of
  \<open>fakeProxy\<close>, the store after that lookup on the empty store, and the store that a
  lookup leaves behind when the hash write fails.
\<close>

definition rec1 :: Record where
  "rec1 = \<lparr>ID = 0, Path = ''example.com/new'', Version = ''v1.0.0'',
           Data = ''example.com/new v1.0.0 h1:ZIP='' @ [nl]
                  @ ''example.com/new v1.0.0/go.mod h1:MOD='' @ [nl]\<rparr>"

definition mem1 :: "(bytes \<Rightarrow> Hash) \<Rightarrow> mem" where
  "mem1 sha = \<lparr>recs = [rec1], hashes = [(0, sha (CHR 0x00 # Data rec1))], treeSize = 1\<rparr>"

definition mem_orphan :: mem where
  "mem_orphan = \<lparr>recs = [rec1], hashes = [], treeSize = 0\<rparr>"

text \<open>The store that a lookup leaves behind when the tree-size update fails.\<close>

definition mem_half :: "(bytes \<Rightarrow> Hash) \<Rightarrow> mem" where
  "mem_half sha = \<lparr>recs = [rec1], hashes = [(0, sha (CHR 0x00 # Data rec1))], treeSize = 0\<rparr>"

text \<open>
  The records that lookups of \<open>example.com/a@v1.0.0\<close> and \<open>example.com/b@v1.0.0\<close> hand to
  \<open>store.AddRecord\<close> when the upstream is \<open>fakeProxy\<close>.
\<close>

definition recA :: Record where
  "recA = \<lparr>ID = 0, Path = ''example.com/a'', Version = ''v1.0.0'',
           Data = record_data ''example.com/a'' ''v1.0.0'' ''h1:ZIP='' ''h1:MOD=''\<rparr>"

definition recB :: Record where
  "recB = \<lparr>ID = 0, Path = ''example.com/b'', Version = ''v1.0.0'',
           Data = record_data ''example.com/b'' ''v1.0.0'' ''h1:ZIP='' ''h1:MOD=''\<rparr>"

definition fetch_log :: "string list" where
  "fetch_log = [''example.com/new/@v/v1.0.0.mod'', ''example.com/new/@v/v1.0.0.zip'']"

text \<open>
  An upstream that keeps a log of the requests it has seen, so that a fetch shows in the
  state; it answers every request with fixed hashes when \<open>ok\<close>, and with a 404 otherwise.
\<close>

definition fakeProxy :: "bool \<Rightarrow> (string list) Proxy" where
  "fakeProxy ok =
     \<lparr>GoMod = (\<lambda>u path version.
        (if ok then Inr ''h1:MOD='' else Inl (Opaque ''get go.mod, expected: 200, received: 404''),
         u @ [path @ ''/@v/'' @ version @ ''.mod''])),
      Zip = (\<lambda>u path version.
        (if ok then Inr ''h1:ZIP='' else Inl (Opaque ''failed to get zip, expected: 200, received: 404''),
         u @ [path @ ''/@v/'' @ version @ ''.zip'']))\<rparr>"

text \<open>A stand-in for SHA-256 with 32-byte results: the first 32 bytes, zero padded.\<close>

definition fakeSha :: "bytes \<Rightarrow> Hash" where
  "fakeSha x = take 32 (x @ replicate 32 (CHR 0x00))"

text \<open>
  A stand-in for the note package: the signature block is a blank line and one line
  that names the key. Opening fails on a message without a blank line (not a signed
  note) and on a signature line of another key.
\<close>

fun has_blank_line :: "string \<Rightarrow> bool" where
  "has_blank_line (a # b # r) = ((a = nl \<and> b = nl) \<or> has_blank_line (b # r))"
| "has_blank_line r = False"

definition fakeNote :: "(string, string) note_pkg" where
  "fakeNote =
     \<lparr>note_Sign = (\<lambda>text key.
        if text \<noteq> [] \<and> last text = nl then Inr (text @ [nl] @ ''sig '' @ key @ [nl])
        else Inl (Opaque ''malformed note'')),
      note_Open = (\<lambda>msg key.
        if has_blank_line msg
        then
          (if length ([nl] @ ''sig '' @ key @ [nl]) \<le> length msg
              \<and> drop (length msg - length ([nl] @ ''sig '' @ key @ [nl])) msg
                  = [nl] @ ''sig '' @ key @ [nl]
           then Inr (take (length msg - length ([nl] @ ''sig '' @ key @ [nl])) msg)
           else Inl (Opaque ''invalid signature''))
        else Inl (Opaque ''malformed note''))\<rparr>"



section \<open>Notions of the specification\<close>

text \<open>The number of trailing 1-bits of a record id, counted from bit 0.\<close>

primrec cto :: "nat \<Rightarrow> 64 word \<Rightarrow> nat" where
  "cto 0 w = 0"
| "cto (Suc k) w = (if bit w 0 then Suc (cto k (drop_bit 1 w)) else 0)"

definition trailing_ones :: "int64 \<Rightarrow> nat" where
  "trailing_ones w = cto 64 w"


text \<open>
  A store keeps its state on a failed write: a failing \<open>AddRecord\<close>, \<open>WriteHashes\<close> or
  \<open>SetTreeSize\<close> changes nothing. And its tables are separate: adding a record changes
  neither the tree size nor the hashes read, writing hashes does not change the tree
  size.
\<close>

definition keeps_failed_writes :: "'s Store \<Rightarrow> bool" where
  "keeps_failed_writes store =
     ((\<forall>s r e s1. AddRecord store s r = (Inl e, s1) \<longrightarrow> s1 = s) \<and>
      (\<forall>s ixs hs e s1. WriteHashes store s ixs hs = (Some e, s1) \<longrightarrow> s1 = s) \<and>
      (\<forall>s n e s1. SetTreeSize store s n = (Some e, s1) \<longrightarrow> s1 = s) \<and>
      (\<forall>s r rid s1. AddRecord store s r = (Inr rid, s1) \<longrightarrow>
         TreeSize store s1 = TreeSize store s \<and> ReadHashes store s1 = ReadHashes store s) \<and>
      (\<forall>s ixs hs s1. WriteHashes store s ixs hs = (None, s1) \<longrightarrow>
         TreeSize store s1 = TreeSize store s))"

text \<open>
  A lookup reaches the append step (\<open>store.AddRecord\<close>, then \<open>tree.AddRecord\<close>) when the
  record is not found and both upstream fetches succeed.
\<close>

definition reaches_append :: "'s Store \<Rightarrow> 'u Proxy \<Rightarrow> 's \<times> 'u \<Rightarrow> string \<Rightarrow> string \<Rightarrow> bool" where
  "reaches_append store px su path version =
     (case su of (s, u) \<Rightarrow>
      (case RecordID store s path version of
         Inr rid \<Rightarrow> False
       | Inl err \<Rightarrow>
           errors_Is err ErrNotFound \<and>
           (case GoMod px u path version of
              (Inl err, u1) \<Rightarrow> False
            | (Inr h1mod, u1) \<Rightarrow>
                (case Zip px u1 path version of (Inl err, u2) \<Rightarrow> False | (Inr h1, u2) \<Rightarrow> True))))"


text \<open>The two bit counts on natural numbers, for the proofs.\<close>

primrec ctzn :: "nat \<Rightarrow> nat \<Rightarrow> nat" where
  "ctzn 0 n = 0"
| "ctzn (Suc k) n = (if odd n then 0 else Suc (ctzn k (n div 2)))"

primrec cton :: "nat \<Rightarrow> nat \<Rightarrow> nat" where
  "cton 0 n = 0"
| "cton (Suc k) n = (if odd n then Suc (cton k (n div 2)) else 0)"



section \<open>Trailing bits\<close>

lemma odd_unat_iff: "odd (unat w) \<longleftrightarrow> bit w 0"
  for w :: "64 word"
proof -
  have "bit (unat w) 0 \<longleftrightarrow> bit w 0"
    by (simp add: bit_unsigned_iff)
  then show ?thesis
    by (simp add: bit_0)
qed

lemma ctz_unat: "ctz k w = ctzn k (unat w)"
  by (induction k arbitrary: w)
    (simp_all add: odd_unat_iff unat_drop_bit_eq drop_bit_eq_div unat_div)

lemma cto_unat: "cto k w = cton k (unat w)"
  by (induction k arbitrary: w)
    (simp_all add: odd_unat_iff unat_drop_bit_eq drop_bit_eq_div unat_div)

lemma ctzn_Suc: "ctzn k (Suc n) = cton k n"
proof (induction k arbitrary: n)
  case 0
  show ?case by simp
next
  case (Suc k)
  show ?case
  proof (cases "odd n")
    case True
    then have "Suc n div 2 = Suc (n div 2)"
      by presburger
    with True Suc show ?thesis
      by simp
  next
    case False
    then show ?thesis
      by simp
  qed
qed

lemma cton_all_ones: "cton k (2 ^ j - 1) = min k j"
proof (induction k arbitrary: j)
  case 0
  show ?case by simp
next
  case (Suc k)
  show ?case
  proof (cases j)
    case 0
    then show ?thesis by simp
  next
    case (Suc j')
    have "(2 ^ Suc j' - 1 :: nat) div 2 = 2 ^ j' - 1"
      by simp
    moreover have "odd (2 ^ Suc j' - 1 :: nat)"
      by simp
    ultimately show ?thesis
      using Suc.IH [of j'] Suc by simp
  qed
qed

lemma ctzn_zero: "ctzn k 0 = k"
  by (induction k) simp_all

text \<open>
  The count \<open>TrailingZeros64(n + 1)\<close> that \<open>tlog.StoredHashes\<close> computes is the number of
  trailing 1-bits of \<open>n\<close>, also at \<open>n = -1\<close>, where \<open>n + 1\<close> wraps to 0 and both are 64.
\<close>

lemma TrailingZeros64_succ: "TrailingZeros64 (w + 1) = trailing_ones w"
proof (cases "w = - 1")
  case True
  have "cton 64 (unat (- 1 :: 64 word)) = 64"
    using cton_all_ones [of 64 64]
    by (simp add: unsigned_minus_1_eq_mask mask_eq_exp_minus_1)
  then show ?thesis
    using True
    by (simp add: TrailingZeros64_def trailing_ones_def ctz_unat cto_unat ctzn_zero)
next
  case False
  then have "1 + w \<noteq> 0"
    by (metis add_eq_0_iff)
  then have "unat (1 + w) = Suc (unat w)"
    by (rule unatSuc)
  then show ?thesis
    by (simp add: TrailingZeros64_def trailing_ones_def ctz_unat cto_unat ctzn_Suc add.commute)
qed

section \<open>The tree append\<close>

lemma length_build_hashes: "length (build_hashes sha xs h) = length xs"
  by (induction xs arbitrary: h) simp_all

lemma StoredHashes_shape:
  assumes "StoredHashes sha n data r = Inr hs"
  shows "length hs = 1 + trailing_ones n \<and> hd hs = RecordHash sha data"
  using assms
  by (auto simp: StoredHashes_def StoredHashesForRecordHash_def Let_def sibling_indexes_def
      length_build_hashes TrailingZeros64_succ split: sum.splits if_splits)

lemma storedHashIndexes_len:
  "storedHashIndexes rid (int n)
     = Inr (map (\<lambda>i. StoredHashIndex i (signed_drop_bit i rid)) [0..<n])"
  by (simp add: storedHashIndexes_def)

lemma wrapf_not_Mismatch: "wrapf msg e \<noteq> Mismatch m n"
  by (cases e) (simp_all add: wrapf_def)

text \<open>
  C1. When \<open>tree.AddRecord\<close> succeeds for record \<open>id\<close>, it has made one \<open>WriteHashes\<close>
  call with \<open>1 + (trailing 1-bits of id)\<close> hashes, the first of them the record hash of
  the data, the \<open>i\<close>-th stored at index \<open>StoredHashIndex(i, id >> i)\<close>, and then one
  \<open>SetTreeSize\<close> call with \<open>id + 1\<close>, whose state is the state it returns.
\<close>

theorem tree_AddRecord_writes:
  assumes "tree_AddRecord sha store s rid data = (None, s')"
  shows "\<exists>hs s1. length hs = 1 + trailing_ones rid \<and> hd hs = RecordHash sha data \<and>
           WriteHashes store s
             (map (\<lambda>i. StoredHashIndex i (signed_drop_bit i rid)) [0..<length hs]) hs
             = (None, s1) \<and>
           SetTreeSize store s1 (rid + 1) = (None, s')"
proof (cases "StoredHashes sha rid data (ReadHashes store s)")
  case (Inl err)
  with assms show ?thesis
    by (simp add: tree_AddRecord_def)
next
  case (Inr hs)
  then have shape: "length hs = 1 + trailing_ones rid \<and> hd hs = RecordHash sha data"
    by (rule StoredHashes_shape)
  let ?ixs = "map (\<lambda>i. StoredHashIndex i (signed_drop_bit i rid)) [0..<length hs]"
  obtain e1 s1 where w: "WriteHashes store s ?ixs hs = (e1, s1)"
    by (cases "WriteHashes store s ?ixs hs")
  obtain e2 s2 where t: "SetTreeSize store s1 (rid + 1) = (e2, s2)"
    by (cases "SetTreeSize store s1 (rid + 1)")
  from shape have "length hs \<noteq> 0"
    by simp
  with assms Inr w t have "e1 = None \<and> e2 = None \<and> s2 = s'"
    by (cases e1; cases e2) (simp_all add: tree_AddRecord_def storedHashIndexes_len)
  with shape w t show ?thesis
    by blast
qed

theorem tree_AddRecord_writes_witness:
  "fst (tree_AddRecord fakeSha (memStore no_faults) mem0 7 ''abc'') = None \<and>
   (\<exists>hs s1. length hs = 1 + trailing_ones 7 \<and> hd hs = RecordHash fakeSha ''abc'' \<and>
      WriteHashes (memStore no_faults) mem0
        (map (\<lambda>i. StoredHashIndex i (signed_drop_bit i 7)) [0..<length hs]) hs = (None, s1) \<and>
      SetTreeSize (memStore no_faults) s1 (7 + 1)
        = (None, snd (tree_AddRecord fakeSha (memStore no_faults) mem0 7 ''abc'')))"
proof -
  have e: "fst (tree_AddRecord fakeSha (memStore no_faults) mem0 7 ''abc'') = None"
    by code_simp
  then have "tree_AddRecord fakeSha (memStore no_faults) mem0 7 ''abc''
      = (None, snd (tree_AddRecord fakeSha (memStore no_faults) mem0 7 ''abc''))"
    by (metis prod.collapse)
  from tree_AddRecord_writes [OF this] e show ?thesis
    by blast
qed

text \<open>
  C10. For a non-negative id and a count of at least 1, \<open>storedHashIndexes\<close> returns
  exactly \<open>count\<close> indexes, and \<open>tree.AddRecord\<close> never returns the
  "indexes and hashes length mismatch" error, whatever the store and the input.
\<close>

theorem storedHashIndexes_length:
  "(0 \<le>s rid \<and> 1 \<le> count \<longrightarrow>
      (\<exists>ixs. storedHashIndexes rid count = Inr ixs \<and> int (length ixs) = count)) \<and>
   fst (tree_AddRecord sha store s rid data) \<noteq> Some (Mismatch m n)"
proof
  show "0 \<le>s rid \<and> 1 \<le> count \<longrightarrow>
      (\<exists>ixs. storedHashIndexes rid count = Inr ixs \<and> int (length ixs) = count)"
    by (simp add: storedHashIndexes_def)
next
  show "fst (tree_AddRecord sha store s rid data) \<noteq> Some (Mismatch m n)"
    by (auto simp: tree_AddRecord_def storedHashIndexes_len wrapf_not_Mismatch
        split: sum.splits prod.splits option.splits)
qed

theorem storedHashIndexes_length_witness:
  "(0 :: int64) \<le>s 7 \<and> (1 :: int) \<le> 4 \<and>
   (\<exists>ixs. storedHashIndexes 7 4 = Inr ixs \<and> int (length ixs) = 4) \<and>
   fst (tree_AddRecord fakeSha (memStore no_faults) mem0 7 ''abc'') \<noteq> Some (Mismatch 4 4)"
proof -
  have h: "(0 :: int64) \<le>s 7 \<and> (1 :: int) \<le> 4"
    by (simp add: word_sle_eq)
  with storedHashIndexes_length [of 7 4 fakeSha "memStore no_faults" mem0 "''abc''" 4 4]
  show ?thesis
    by blast
qed

section \<open>The tree text\<close>

subsection \<open>Decimal numbers\<close>














subsection \<open>Base64\<close>























lemma treePrefix_eq: "treePrefix = ''go.sum database tree'' @ [nl]"
  by (simp add: treePrefix_def)




section \<open>Lookup\<close>

lemma Lookup_hit:
  "RecordID store s path version = Inr rid \<Longrightarrow>
   Lookup sha store px (s, u) path version = (Inr rid, s, u)"
  by (simp add: Lookup_def)

lemma tree_AddRecord_mem_recs:
  "recs (snd (tree_AddRecord sha (memStore f) m rid data)) = recs m"
  by (auto simp: tree_AddRecord_def memStore_def split: sum.splits prod.splits option.splits if_splits)

lemma find_append_new:
  "find P xs = None \<Longrightarrow> P x \<Longrightarrow> find P (xs @ [x]) = Some x"
  by (induction xs) (auto split: if_splits)

lemma memStore_RecordID_Inl:
  "RecordID (memStore f) m path version = Inl e \<Longrightarrow>
   find (\<lambda>r. Path r = path \<and> Version r = version) (recs m) = None \<and> e = ErrNotFound"
  by (auto simp: memStore_def split: option.splits)

lemma Lookup_mem_stores:
  assumes "Lookup sha (memStore f) px (m, u) path version = (Inr rid, m', u')"
  shows "RecordID (memStore f) m' path version = Inr rid"
proof (cases "RecordID (memStore f) m path version")
  case (Inr r)
  with assms show ?thesis
    by (simp add: Lookup_def)
next
  case (Inl e)
  then have none: "find (\<lambda>r. Path r = path \<and> Version r = version) (recs m) = None"
    and e: "e = ErrNotFound"
    using memStore_RecordID_Inl by blast+
  obtain r1 u1 where g: "GoMod px u path version = (r1, u1)"
    by (cases "GoMod px u path version")
  obtain r2 u2 where z: "Zip px u1 path version = (r2, u2)"
    by (cases "Zip px u1 path version")
  from assms Inl e g z obtain h1mod h1 where r1: "r1 = Inr h1mod" and r2: "r2 = Inr h1"
    by (cases r1; cases r2) (simp_all add: Lookup_def fetchAndStoreRecord_def)
  let ?rec = "\<lparr>ID = 0, Path = path, Version = version, Data = record_data path version h1 h1mod\<rparr>"
  let ?m1 = "m\<lparr>recs := recs m @ [?rec\<lparr>ID := of_nat (length (recs m))\<rparr>]\<rparr>"
  have add: "AddRecord (memStore f) m ?rec =
      (if fail_add f then (Inl (Opaque ''insert record''), m) else (Inr (of_nat (length (recs m))), ?m1))"
    using none by (simp add: memStore_def)
  obtain e3 m3 where t: "tree_AddRecord sha (memStore f) ?m1 (of_nat (length (recs m))) (Data ?rec) = (e3, m3)"
    by (cases "tree_AddRecord sha (memStore f) ?m1 (of_nat (length (recs m))) (Data ?rec)")
  from assms Inl e g z r1 r2 add t
  have res: "\<not> fail_add f \<and> e3 = None \<and> rid = of_nat (length (recs m)) \<and> m' = m3"
    by (cases "fail_add f"; cases e3) (simp_all add: Lookup_def fetchAndStoreRecord_def Let_def)
  have "recs m3 = recs ?m1"
    using tree_AddRecord_mem_recs [of sha f ?m1 "of_nat (length (recs m))" "Data ?rec"] t
    by simp
  with res none show ?thesis
    by (simp add: memStore_def find_append_new)
qed

text \<open>
  C7. When the store already holds the record of a path and version, \<open>Lookup\<close> returns
  its id and leaves the store and the upstream as they are: no fetch, no write. And on
  the in-memory store, after a lookup has returned an id, a further lookup of the same
  key returns the same id, again with the store and any upstream untouched.
\<close>

theorem Lookup_present:
  "(RecordID store s path version = Inr rid \<longrightarrow>
      Lookup sha store px (s, u) path version = (Inr rid, s, u)) \<and>
   (Lookup sha (memStore f) px1 (m, u1) path version = (Inr rid', m', u1') \<longrightarrow>
      Lookup sha (memStore f) px2 (m', u2) path version = (Inr rid', m', u2))"
  using Lookup_hit Lookup_mem_stores by metis

theorem Lookup_present_witness:
  "RecordID (memStore no_faults) (mem1 fakeSha) ''example.com/new'' ''v1.0.0'' = Inr 0 \<and>
   Lookup fakeSha (memStore no_faults) (fakeProxy True) (mem1 fakeSha, [])
     ''example.com/new'' ''v1.0.0''
     = (Inr 0, mem1 fakeSha, []) \<and>
   Lookup fakeSha (memStore no_faults) (fakeProxy True) (mem0, []) ''example.com/new'' ''v1.0.0''
     = (Inr 0, mem1 fakeSha, fetch_log) \<and>
   Lookup fakeSha (memStore no_faults) (fakeProxy True) (mem1 fakeSha, fetch_log)
     ''example.com/new'' ''v1.0.0''
     = (Inr 0, mem1 fakeSha, fetch_log)"
proof -
  have a: "RecordID (memStore no_faults) (mem1 fakeSha) ''example.com/new'' ''v1.0.0'' = Inr 0"
    by code_simp
  have b: "Lookup fakeSha (memStore no_faults) (fakeProxy True) (mem0, [])
      ''example.com/new'' ''v1.0.0''
     = (Inr 0, mem1 fakeSha, fetch_log)"
    by code_simp
  from a b
    Lookup_present [of "memStore no_faults" "mem1 fakeSha" "''example.com/new''" "''v1.0.0''" 0
      fakeSha "fakeProxy True" "[]" no_faults "fakeProxy True" mem0 "[]" 0 "mem1 fakeSha"
      fetch_log "fakeProxy True" fetch_log]
  show ?thesis
    by blast
qed

text \<open>
  C9. When a lookup misses the store, fetches the go.mod hash \<open>h1mod\<close> and the zip hash
  \<open>h1\<close>, and succeeds, the record it hands to \<open>store.AddRecord\<close>, and the data it hands
  to \<open>tree.AddRecord\<close>, carry exactly the two lines
  \<open>"<path> <version> <h1>\n<path> <version>/go.mod <h1mod>\n"\<close>.
\<close>

theorem Lookup_record_data:
  assumes "Lookup sha store px (s, u) path version = (Inr rid, s', u')"
    and "RecordID store s path version = Inl e"
    and "GoMod px u path version = (Inr h1mod, u1)"
    and "Zip px u1 path version = (Inr h1, u2)"
  shows "\<exists>s1.
      AddRecord store s
        \<lparr>ID = 0, Path = path, Version = version,
         Data = path @ '' '' @ version @ '' '' @ h1 @ [nl]
                @ path @ '' '' @ version @ ''/go.mod '' @ h1mod @ [nl]\<rparr> = (Inr rid, s1) \<and>
      tree_AddRecord sha store s1 rid
        (path @ '' '' @ version @ '' '' @ h1 @ [nl]
         @ path @ '' '' @ version @ ''/go.mod '' @ h1mod @ [nl]) = (None, s')"
proof -
  let ?data = "path @ '' '' @ version @ '' '' @ h1 @ [nl]
               @ path @ '' '' @ version @ ''/go.mod '' @ h1mod @ [nl]"
  let ?rec = "\<lparr>ID = 0, Path = path, Version = version, Data = ?data\<rparr>"
  obtain r1 s1 where a: "AddRecord store s ?rec = (r1, s1)"
    by (cases "AddRecord store s ?rec")
  from assms a obtain rid1 where r1: "r1 = Inr rid1"
    by (cases r1)
      (simp_all add: Lookup_def fetchAndStoreRecord_def record_data_def split: if_splits)
  obtain e2 s2 where t: "tree_AddRecord sha store s1 rid1 ?data = (e2, s2)"
    by (cases "tree_AddRecord sha store s1 rid1 ?data")
  from assms a r1 t have "e2 = None \<and> rid1 = rid \<and> s2 = s'"
    by (cases e2)
      (simp_all add: Lookup_def fetchAndStoreRecord_def record_data_def split: if_splits)
  with a r1 t show ?thesis
    by simp
qed

theorem Lookup_record_data_witness:
  "Lookup fakeSha (memStore no_faults) (fakeProxy True) (mem0, []) ''example.com/new'' ''v1.0.0''
     = (Inr 0, mem1 fakeSha, fetch_log) \<and>
   RecordID (memStore no_faults) mem0 ''example.com/new'' ''v1.0.0'' = Inl ErrNotFound \<and>
   GoMod (fakeProxy True) [] ''example.com/new'' ''v1.0.0''
     = (Inr ''h1:MOD='', [''example.com/new/@v/v1.0.0.mod'']) \<and>
   Zip (fakeProxy True) [''example.com/new/@v/v1.0.0.mod''] ''example.com/new'' ''v1.0.0''
     = (Inr ''h1:ZIP='', fetch_log) \<and>
   (\<exists>s1.
      AddRecord (memStore no_faults) mem0
        \<lparr>ID = 0, Path = ''example.com/new'', Version = ''v1.0.0'',
         Data = ''example.com/new'' @ '' '' @ ''v1.0.0'' @ '' '' @ ''h1:ZIP='' @ [nl]
                @ ''example.com/new'' @ '' '' @ ''v1.0.0'' @ ''/go.mod '' @ ''h1:MOD='' @ [nl]\<rparr>
        = (Inr 0, s1) \<and>
      tree_AddRecord fakeSha (memStore no_faults) s1 0
        (''example.com/new'' @ '' '' @ ''v1.0.0'' @ '' '' @ ''h1:ZIP='' @ [nl]
         @ ''example.com/new'' @ '' '' @ ''v1.0.0'' @ ''/go.mod '' @ ''h1:MOD='' @ [nl])
        = (None, mem1 fakeSha))"
proof -
  have a: "Lookup fakeSha (memStore no_faults) (fakeProxy True) (mem0, [])
      ''example.com/new'' ''v1.0.0''
     = (Inr 0, mem1 fakeSha, fetch_log)"
    by code_simp
  have b: "RecordID (memStore no_faults) mem0 ''example.com/new'' ''v1.0.0'' = Inl ErrNotFound"
    by code_simp
  have c: "GoMod (fakeProxy True) [] ''example.com/new'' ''v1.0.0''
     = (Inr ''h1:MOD='', [''example.com/new/@v/v1.0.0.mod''])"
    by code_simp
  have d: "Zip (fakeProxy True) [''example.com/new/@v/v1.0.0.mod''] ''example.com/new'' ''v1.0.0''
     = (Inr ''h1:ZIP='', fetch_log)"
    by code_simp
  from Lookup_record_data [OF a b c d] a b c d show ?thesis
    by blast
qed

lemma memStore_keeps: "keeps_failed_writes (memStore f)"
  unfolding keeps_failed_writes_def
  by (auto simp: memStore_def split: if_splits)

lemma tree_AddRecord_failed:
  assumes k: "keeps_failed_writes store"
    and t: "tree_AddRecord sha store s1 rid data = (Some e, s')"
  shows "s' = s1 \<or>
         (\<exists>ixs hs e2. WriteHashes store s1 ixs hs = (None, s') \<and>
            SetTreeSize store s' (rid + 1) = (Some e2, s'))"
proof (cases "StoredHashes sha rid data (ReadHashes store s1)")
  case (Inl err)
  with t show ?thesis
    by (simp add: tree_AddRecord_def)
next
  case (Inr hs)
  let ?ixs = "map (\<lambda>i. StoredHashIndex i (signed_drop_bit i rid)) [0..<length hs]"
  obtain e1 s2 where w: "WriteHashes store s1 ?ixs hs = (e1, s2)"
    by (cases "WriteHashes store s1 ?ixs hs")
  obtain e2 s3 where z: "SetTreeSize store s2 (rid + 1) = (e2, s3)"
    by (cases "SetTreeSize store s2 (rid + 1)")
  show ?thesis
  proof (cases e1)
    case (Some err)
    with k w have "s2 = s1"
      unfolding keeps_failed_writes_def by blast
    with t Inr w Some show ?thesis
      by (simp add: tree_AddRecord_def storedHashIndexes_len split: if_splits)
  next
    case None
    show ?thesis
    proof (cases e2)
      case (Some err)
      with k z have s3: "s3 = s2"
        unfolding keeps_failed_writes_def by blast
      from t Inr w None z Some have "s' = s1 \<or> s' = s3"
        by (simp add: tree_AddRecord_def storedHashIndexes_len split: if_splits)
      with s3 w None z Some show ?thesis
        by blast
    next
      case n2: None
      with t Inr w None z have "s' = s1"
        by (simp add: tree_AddRecord_def storedHashIndexes_len split: if_splits)
      then show ?thesis
        by simp
    qed
  qed
qed

lemma kfw_add_failed:
  "keeps_failed_writes store \<Longrightarrow> AddRecord store s r = (Inl e, s1) \<Longrightarrow> s1 = s"
  by (simp add: keeps_failed_writes_def)

lemma kfw_add_frame:
  "keeps_failed_writes store \<Longrightarrow> AddRecord store s r = (Inr rid, s1) \<Longrightarrow>
   TreeSize store s1 = TreeSize store s \<and> ReadHashes store s1 = ReadHashes store s"
  by (simp add: keeps_failed_writes_def)

lemma kfw_write_frame:
  "keeps_failed_writes store \<Longrightarrow> WriteHashes store s ixs hs = (None, s1) \<Longrightarrow>
   TreeSize store s1 = TreeSize store s"
  by (simp add: keeps_failed_writes_def)

lemma Lookup_failed_cases:
  assumes "Lookup sha store px (s, u) path version = (Inl e, s', u')"
  shows "s' = s \<or>
         (reaches_append store px (s, u) path version \<and>
          (\<exists>h1mod u1 h1 u2.
             GoMod px u path version = (Inr h1mod, u1) \<and>
             Zip px u1 path version = (Inr h1, u2) \<and>
             ((\<exists>e1. AddRecord store s
                      \<lparr>ID = 0, Path = path, Version = version,
                       Data = record_data path version h1 h1mod\<rparr> = (Inl e1, s')) \<or>
              (\<exists>rid s1 e2.
                 AddRecord store s
                   \<lparr>ID = 0, Path = path, Version = version,
                    Data = record_data path version h1 h1mod\<rparr> = (Inr rid, s1) \<and>
                 tree_AddRecord sha store s1 rid (record_data path version h1 h1mod)
                   = (Some e2, s')))))"
proof (cases "reaches_append store px (s, u) path version")
  case False
  with assms have "s' = s"
    by (auto simp: Lookup_def fetchAndStoreRecord_def reaches_append_def
        split: sum.splits prod.splits if_splits)
  then show ?thesis
    by simp
next
  case True
  obtain rg u1 where g0: "GoMod px u path version = (rg, u1)"
    by (cases "GoMod px u path version")
  obtain rz u2 where z0: "Zip px u1 path version = (rz, u2)"
    by (cases "Zip px u1 path version")
  from True g0 z0 obtain err h1mod h1 where r: "RecordID store s path version = Inl err"
    and n: "errors_Is err ErrNotFound" and rg: "rg = Inr h1mod" and rz: "rz = Inr h1"
    by (cases "RecordID store s path version"; cases rg; cases rz)
      (simp_all add: reaches_append_def)
  from g0 rg have g: "GoMod px u path version = (Inr h1mod, u1)"
    by simp
  from z0 rz have z: "Zip px u1 path version = (Inr h1, u2)"
    by simp
  let ?rec = "\<lparr>ID = 0, Path = path, Version = version,
              Data = record_data path version h1 h1mod\<rparr>"
  obtain ra s1 where a: "AddRecord store s ?rec = (ra, s1)"
    by (cases "AddRecord store s ?rec")
  show ?thesis
  proof (cases ra)
    case (Inl e1)
    with assms r n g z a have "s' = s1"
      by (simp add: Lookup_def fetchAndStoreRecord_def)
    with a Inl True g z show ?thesis
      by blast
  next
    case (Inr rid)
    obtain e2 s2 where t: "tree_AddRecord sha store s1 rid (record_data path version h1 h1mod)
        = (e2, s2)"
      by (cases "tree_AddRecord sha store s1 rid (record_data path version h1 h1mod)")
    from assms r n g z a Inr t obtain e3 where "e2 = Some e3" and "s' = s2"
      by (cases e2) (simp_all add: Lookup_def fetchAndStoreRecord_def)
    with a Inr t True g z show ?thesis
      by blast
  qed
qed

text \<open>
  C3, as the code has it. A lookup that returns an error before it reaches the append
  step (the record-id query fails, or an upstream fetch fails) leaves the store as it
  was. On a store that keeps its state on a failed write, a lookup that returns an error
  never advances the tree size, and the store it leaves is one of three: the store as it
  was; or, \<open>store.AddRecord\<close> of the lookup's record having succeeded, the store that
  call left, with the hashes as they were; or, \<open>WriteHashes\<close> having succeeded too and
  \<open>SetTreeSize\<close> failed, the store \<open>WriteHashes\<close> left.
\<close>

theorem Lookup_error_state:
  assumes "Lookup sha store px (s, u) path version = (Inl e, s', u')"
  shows "(\<not> reaches_append store px (s, u) path version \<longrightarrow> s' = s) \<and>
         (keeps_failed_writes store \<longrightarrow>
            TreeSize store s' = TreeSize store s \<and>
            (s' = s \<or>
             (\<exists>h1mod u1 h1 u2 rid s1.
                GoMod px u path version = (Inr h1mod, u1) \<and>
                Zip px u1 path version = (Inr h1, u2) \<and>
                AddRecord store s
                  \<lparr>ID = 0, Path = path, Version = version,
                   Data = record_data path version h1 h1mod\<rparr> = (Inr rid, s1) \<and>
                ((s' = s1 \<and> ReadHashes store s' = ReadHashes store s) \<or>
                 (\<exists>ixs hs e2. WriteHashes store s1 ixs hs = (None, s') \<and>
                    SetTreeSize store s' (rid + 1) = (Some e2, s'))))))"
proof (intro conjI impI)
  assume "\<not> reaches_append store px (s, u) path version"
  with Lookup_failed_cases [OF assms] show "s' = s"
    by blast
next
  assume k: "keeps_failed_writes store"
  let ?changed = "\<exists>h1mod u1 h1 u2 rid s1.
                GoMod px u path version = (Inr h1mod, u1) \<and>
                Zip px u1 path version = (Inr h1, u2) \<and>
                AddRecord store s
                  \<lparr>ID = 0, Path = path, Version = version,
                   Data = record_data path version h1 h1mod\<rparr> = (Inr rid, s1) \<and>
                ((s' = s1 \<and> ReadHashes store s' = ReadHashes store s) \<or>
                 (\<exists>ixs hs e2. WriteHashes store s1 ixs hs = (None, s') \<and>
                    SetTreeSize store s' (rid + 1) = (Some e2, s')))"
  from Lookup_failed_cases [OF assms]
  consider "s' = s"
    | r e1 where "AddRecord store s r = (Inl e1, s')"
    | h1mod u1 h1 u2 rid s1 e2 where
        "GoMod px u path version = (Inr h1mod, u1)"
        "Zip px u1 path version = (Inr h1, u2)"
        "AddRecord store s
           \<lparr>ID = 0, Path = path, Version = version,
            Data = record_data path version h1 h1mod\<rparr> = (Inr rid, s1)"
        "tree_AddRecord sha store s1 rid (record_data path version h1 h1mod) = (Some e2, s')"
    by blast
  then have "TreeSize store s' = TreeSize store s \<and> (s' = s \<or> ?changed)"
  proof cases
    case 1
    then show ?thesis by simp
  next
    case 2
    from kfw_add_failed [OF k 2] have "s' = s" .
    then show ?thesis by simp
  next
    case 3
    from kfw_add_frame [OF k 3(3)]
    have f: "TreeSize store s1 = TreeSize store s" "ReadHashes store s1 = ReadHashes store s"
      by simp_all
    from tree_AddRecord_failed [OF k 3(4)]
    show ?thesis
    proof
      assume "s' = s1"
      with f 3(1,2,3) show ?thesis by blast
    next
      assume "\<exists>ixs hs e2. WriteHashes store s1 ixs hs = (None, s') \<and>
            SetTreeSize store s' (rid + 1) = (Some e2, s')"
      then obtain ixs hs e2 where w: "WriteHashes store s1 ixs hs = (None, s')"
        and z: "SetTreeSize store s' (rid + 1) = (Some e2, s')"
        by blast
      from kfw_write_frame [OF k w] have "TreeSize store s' = TreeSize store s1" .
      with f have "TreeSize store s' = TreeSize store s"
        by simp
      moreover from 3(1,2,3) w z have ?changed
        by blast
      ultimately show ?thesis
        by simp
    qed
  qed
  then show "TreeSize store s' = TreeSize store s" and "s' = s \<or> ?changed"
    by blast+
qed

theorem Lookup_error_state_witness:
  "Lookup fakeSha (memStore no_faults) (fakeProxy False) (mem0, []) ''example.com/new'' ''v1.0.0''
     = (Inl (Errorf ''failed getting h1 hash for go.mod''
              (Opaque ''get go.mod, expected: 200, received: 404'')),
        mem0, [''example.com/new/@v/v1.0.0.mod'']) \<and>
   \<not> reaches_append (memStore no_faults) (fakeProxy False) (mem0, [])
       ''example.com/new'' ''v1.0.0'' \<and>
   mem0 = mem0 \<and>
   Lookup fakeSha (memStore (no_faults\<lparr>fail_size := True\<rparr>)) (fakeProxy True) (mem0, [])
     ''example.com/new'' ''v1.0.0''
     = (Inl (Errorf ''failed to update tree hashes''
              (Errorf ''failed to update tree size'' (Opaque ''update tree size''))),
        mem_half fakeSha, fetch_log) \<and>
   keeps_failed_writes (memStore (no_faults\<lparr>fail_size := True\<rparr>)) \<and>
   TreeSize (memStore (no_faults\<lparr>fail_size := True\<rparr>)) (mem_half fakeSha)
     = TreeSize (memStore (no_faults\<lparr>fail_size := True\<rparr>)) mem0 \<and>
   (mem_half fakeSha = mem0 \<or>
    (\<exists>h1mod u1 h1 u2 rid s1.
       GoMod (fakeProxy True) [] ''example.com/new'' ''v1.0.0'' = (Inr h1mod, u1) \<and>
       Zip (fakeProxy True) u1 ''example.com/new'' ''v1.0.0'' = (Inr h1, u2) \<and>
       AddRecord (memStore (no_faults\<lparr>fail_size := True\<rparr>)) mem0
         \<lparr>ID = 0, Path = ''example.com/new'', Version = ''v1.0.0'',
          Data = record_data ''example.com/new'' ''v1.0.0'' h1 h1mod\<rparr> = (Inr rid, s1) \<and>
       ((mem_half fakeSha = s1 \<and>
         ReadHashes (memStore (no_faults\<lparr>fail_size := True\<rparr>)) (mem_half fakeSha)
           = ReadHashes (memStore (no_faults\<lparr>fail_size := True\<rparr>)) mem0) \<or>
        (\<exists>ixs hs e2.
           WriteHashes (memStore (no_faults\<lparr>fail_size := True\<rparr>)) s1 ixs hs
             = (None, mem_half fakeSha) \<and>
           SetTreeSize (memStore (no_faults\<lparr>fail_size := True\<rparr>)) (mem_half fakeSha) (rid + 1)
             = (Some e2, mem_half fakeSha)))))"
proof -
  have a: "Lookup fakeSha (memStore no_faults) (fakeProxy False) (mem0, [])
      ''example.com/new'' ''v1.0.0''
     = (Inl (Errorf ''failed getting h1 hash for go.mod''
              (Opaque ''get go.mod, expected: 200, received: 404'')),
        mem0, [''example.com/new/@v/v1.0.0.mod''])"
    by code_simp
  have b: "\<not> reaches_append (memStore no_faults) (fakeProxy False) (mem0, [])
       ''example.com/new'' ''v1.0.0''"
    by code_simp
  have c: "Lookup fakeSha (memStore (no_faults\<lparr>fail_size := True\<rparr>)) (fakeProxy True) (mem0, [])
     ''example.com/new'' ''v1.0.0''
     = (Inl (Errorf ''failed to update tree hashes''
              (Errorf ''failed to update tree size'' (Opaque ''update tree size''))),
        mem_half fakeSha, fetch_log)"
    by code_simp
  have d: "keeps_failed_writes (memStore (no_faults\<lparr>fail_size := True\<rparr>))"
    by (rule memStore_keeps)
  from Lookup_error_state [OF a] Lookup_error_state [OF c] a b c d show ?thesis
    by blast
qed

text \<open>
  C3, as the claim states it, fails on a store without transactions. When the hash
  write fails, the lookup returns an error and the record added by \<open>store.AddRecord\<close>
  stays. When the tree-size update fails, the lookup returns an error and the record
  and its positional hash stay.
\<close>

theorem Lookup_failed_append_keeps_record:
  "Lookup fakeSha (memStore (no_faults\<lparr>fail_write := True\<rparr>)) (fakeProxy True) (mem0, [])
     ''example.com/new'' ''v1.0.0''
   = (Inl (Errorf ''failed to update tree hashes''
            (Errorf ''failed to write hashes for record'' (Opaque ''insert hash''))),
      mem_orphan, fetch_log) \<and>
   Lookup fakeSha (memStore (no_faults\<lparr>fail_size := True\<rparr>)) (fakeProxy True) (mem0, [])
     ''example.com/new'' ''v1.0.0''
   = (Inl (Errorf ''failed to update tree hashes''
            (Errorf ''failed to update tree size'' (Opaque ''update tree size''))),
      mem_half fakeSha, fetch_log) \<and>
   recs mem_orphan = [rec1] \<and> recs (mem_half fakeSha) = [rec1] \<and>
   hashes (mem_half fakeSha) = [(0, fakeSha (CHR 0x00 # Data rec1))] \<and>
   recs mem0 = [] \<and> hashes mem0 = []"
  by code_simp

text \<open>
  C2. \<open>Lookup\<close> on a store that implements \<open>TxStore\<close> and whose hash write fails: the
  append runs on the store itself, outside \<open>WithTx\<close>, so the error comes back and the
  record added before the failure stays in the store.
\<close>

theorem Lookup_ignores_WithTx:
  "WithTx (memStore (no_faults\<lparr>fail_write := True, has_tx := True\<rparr>)) \<noteq> None \<and>
   Lookup fakeSha (memStore (no_faults\<lparr>fail_write := True, has_tx := True\<rparr>)) (fakeProxy True)
     (mem0, []) ''example.com/new'' ''v1.0.0''
   = (Inl (Errorf ''failed to update tree hashes''
            (Errorf ''failed to write hashes for record'' (Opaque ''insert hash''))),
      mem_orphan, fetch_log)"
  by code_simp

text \<open>
  C4. Two lookups of the distinct absent modules \<open>example.com/a@v1.0.0\<close> and
  \<open>example.com/b@v1.0.0\<close>. Run one after the other, they store the records \<open>recA\<close> (id 0)
  and \<open>recB\<close> (id 1) and leave a tree of size 2. Each does so by \<open>store.AddRecord\<close>
  followed by \<open>tree.AddRecord\<close>, and nothing in \<open>fetchAndStoreRecord\<close> keeps the two calls
  of one lookup together. When they interleave (\<open>store.AddRecord\<close> for \<open>a\<close>, then for \<open>b\<close>,
  then \<open>tree.AddRecord\<close> for \<open>b\<close>, then for \<open>a\<close>), all four calls succeed, the same two
  records are stored, and the tree size ends at 1.
\<close>

theorem interleaved_appends_tree_size:
  "(case Lookup fakeSha (memStore no_faults) (fakeProxy True) (mem0, [])
          ''example.com/a'' ''v1.0.0'' of
      (ra, sa, ua) \<Rightarrow>
    case Lookup fakeSha (memStore no_faults) (fakeProxy True) (sa, ua)
          ''example.com/b'' ''v1.0.0'' of
      (rb, sb, ub) \<Rightarrow>
        (ra, rb, TreeSize (memStore no_faults) sb, recs sb))
   = (Inr 0, Inr 1, Inr 2, [recA\<lparr>ID := 0\<rparr>, recB\<lparr>ID := 1\<rparr>]) \<and>
   (case AddRecord (memStore no_faults) mem0 recA of
      (ra, s1) \<Rightarrow>
    case AddRecord (memStore no_faults) s1 recB of
      (rb, s2) \<Rightarrow>
    case tree_AddRecord fakeSha (memStore no_faults) s2 1 (Data recB) of
      (eb, s3) \<Rightarrow>
    case tree_AddRecord fakeSha (memStore no_faults) s3 0 (Data recA) of
      (ea, s4) \<Rightarrow>
        (ra, rb, eb, ea, TreeSize (memStore no_faults) s4, recs s4))
   = (Inr 0, Inr 1, None, None, Inr 1, [recA\<lparr>ID := 0\<rparr>, recB\<lparr>ID := 1\<rparr>])"
  by code_simp

section \<open>Signed tree heads\<close>








text \<open>
  C6, as the code has it. Whenever \<open>note.Open\<close> fails, be it a signature that does not
  verify or bytes that are no signed note at all, \<open>VerifyTreeHead\<close> returns an error that
  wraps \<open>ErrVerifyFailed\<close> and the cause. When the note opens and its text does not parse
  as a tree, it returns an error that wraps \<open>ErrInvalidNote\<close> and the cause.
\<close>

theorem VerifyTreeHead_errors:
  "(note_Open np msg vf = Inl e \<longrightarrow>
      VerifyTreeHead np vf msg = Inl (Errorf2 ErrVerifyFailed e) \<and>
      errors_Is (Errorf2 ErrVerifyFailed e) ErrVerifyFailed) \<and>
   (note_Open np msg vf = Inr txt \<and> ParseTree txt = Inl e' \<longrightarrow>
      VerifyTreeHead np vf msg = Inl (Errorf2 ErrInvalidNote e') \<and>
      errors_Is (Errorf2 ErrInvalidNote e') ErrInvalidNote)"
  by (simp add: VerifyTreeHead_def)

theorem VerifyTreeHead_errors_witness:
  "note_Open fakeNote ''not a valid note'' ''k'' = Inl (Opaque ''malformed note'') \<and>
   VerifyTreeHead fakeNote ''k'' ''not a valid note''
     = Inl (Errorf2 ErrVerifyFailed (Opaque ''malformed note'')) \<and>
   errors_Is (Errorf2 ErrVerifyFailed (Opaque ''malformed note'')) ErrVerifyFailed \<and>
   note_Open fakeNote (''hello'' @ [nl, nl] @ ''sig k'' @ [nl]) ''k'' = Inr (''hello'' @ [nl]) \<and>
   ParseTree (''hello'' @ [nl]) = Inl ErrMalformedTree \<and>
   VerifyTreeHead fakeNote ''k'' (''hello'' @ [nl, nl] @ ''sig k'' @ [nl])
     = Inl (Errorf2 ErrInvalidNote ErrMalformedTree) \<and>
   errors_Is (Errorf2 ErrInvalidNote ErrMalformedTree) ErrInvalidNote"
proof -
  have a: "note_Open fakeNote ''not a valid note'' ''k'' = Inl (Opaque ''malformed note'')"
    by code_simp
  have b: "note_Open fakeNote (''hello'' @ [nl, nl] @ ''sig k'' @ [nl]) ''k''
      = Inr (''hello'' @ [nl])"
    by code_simp
  have c: "ParseTree (''hello'' @ [nl]) = Inl ErrMalformedTree"
    by (simp add: ParseTree_def treePrefix_def nl_def)
  from a b c
    VerifyTreeHead_errors [of fakeNote "''not a valid note''" "''k''" "Opaque ''malformed note''"]
    VerifyTreeHead_errors [of fakeNote "''hello'' @ [nl, nl] @ ''sig k'' @ [nl]" "''k''" _
      "''hello'' @ [nl]" ErrMalformedTree]
  show ?thesis
    by blast
qed

text \<open>
  C6, as the claim states it, fails: bytes that are not a signed note make \<open>note.Open\<close>
  fail, and \<open>VerifyTreeHead\<close> answers with \<open>ErrVerifyFailed\<close>, not with \<open>ErrInvalidNote\<close>.
\<close>

theorem VerifyTreeHead_malformed_note:
  "VerifyTreeHead fakeNote ''k'' ''not a valid note''
     = Inl (Errorf2 ErrVerifyFailed (Opaque ''malformed note'')) \<and>
   errors_Is (Errorf2 ErrVerifyFailed (Opaque ''malformed note'')) ErrVerifyFailed \<and>
   \<not> errors_Is (Errorf2 ErrVerifyFailed (Opaque ''malformed note'')) ErrInvalidNote"
  by code_simp

section \<open>The tree hash returns\<close>










lemma pow_mono_62: "l \<le> 62 \<Longrightarrow> (2 :: int) ^ l \<le> 2 ^ 62"
  by (rule power_increasing) simp_all















section \<open>The signed head of the store\<close>




end
